theory Spec2Isabelle
  imports Complex_Main "HOL-Library.AList"
begin

section \<open>External signal scores (src/monitor/github.ts, src/monitor/dexscreener.ts)\<close>

text \<open>
  JavaScript numbers are modelled by exact numbers: counts by \<open>int\<close> or \<open>nat\<close>, prices,
  percentages and volumes by \<open>real\<close>. The non-finite doubles (NaN, the infinities) and
  rounding are outside the model.
\<close>

record GitHubStats =
  repo :: string
  stars :: int
  forks :: int
  openIssues :: int
  lastPush :: string
  latestRelease :: "string option"
  commits30d :: int

text \<open>
  \<open>computeGitHubScore\<close> reads the clock (\<open>Date.now()\<close>, milliseconds) and parses the ISO
  date of the last push (\<open>new Date(s).getTime()\<close>). Both belong to the runtime, so the
  model takes them as arguments: \<open>dateNow\<close> is the clock reading and \<open>getTime s\<close> is
  \<open>Some\<close> of the milliseconds of \<open>s\<close>, or \<open>None\<close> for an invalid date (NaN in the
  source, for which both comparisons are false).
\<close>

definition computeGitHubScore :: "int \<Rightarrow> (string \<Rightarrow> int option) \<Rightarrow> GitHubStats \<Rightarrow> int" where
  "computeGitHubScore dateNow getTime stats =
     (let score = 0;
          score = (if stars stats \<ge> 10000 then score + 6
                   else if stars stats \<ge> 5000 then score + 5
                   else if stars stats \<ge> 2000 then score + 4
                   else if stars stats \<ge> 500 then score + 2
                   else if stars stats \<ge> 100 then score + 1
                   else score);
          score = (if commits30d stats \<ge> 20 then score + 2
                   else if commits30d stats \<ge> 5 then score + 1
                   else score)
      in case getTime (lastPush stats) of
           None \<Rightarrow> score
         | Some t \<Rightarrow>
             (let daysSincePush = real_of_int (dateNow - t) / (1000 * 60 * 60 * 24)
              in if daysSincePush \<le> 7 then score + 2
                 else if daysSincePush \<le> 30 then score + 1
                 else score))"

record DexTokenData =
  symbol :: string
  priceUsd :: real
  change24h :: real
  volume24h :: real
  liquidity :: "real option"
  pairAddress :: "string option"
  dex :: "string option"

definition computeDexScore :: "DexTokenData \<Rightarrow> int" where
  "computeDexScore token =
     (let score = 0;
          score = (if volume24h token \<ge> 10000000 then score + 2
                   else if volume24h token \<ge> 1000000 then score + 1
                   else if volume24h token < 10000 then score - 1
                   else score);
          score = (if change24h token \<le> -30 then score - 2
                   else if change24h token \<le> -15 then score - 1
                   else if change24h token \<ge> 20 then score + 1
                   else score)
      in score)"

section \<open>JavaScript values\<close>

text \<open>
  Fields typed \<open>any\<close> in the source (a task's result, a parameter's default, the values
  of a parameter bag) and everything \<open>JSON.parse\<close> returns are values of \<open>jsval\<close>.
  An object is the list of its own properties in insertion order. A \<open>Date\<close> object is
  identified by its ISO-8601 rendering (\<open>toISOString()\<close>); the registry never looks
  inside one.
\<close>

datatype jsval =
    JUndefined
  | JNull
  | JBool bool
  | JNum real
  | JStr string
  | JDate string
  | JArr "jsval list"
  | JObj "(string \<times> jsval) list"

type_synonym date = string

section \<open>Data model (the type definitions, src/agent-protocol/index.ts from line 281)\<close>

text \<open>
  Optional properties (\<open>field?: T\<close>) are \<open>option\<close> fields. The string-literal union
  types of the categories, the parameter type tags and the currencies are strings at run
  time and are kept as strings. Field names that several interfaces share carry the
  interface as a prefix, and \<open>id\<close>, \<open>type\<close> and \<open>default\<close> are renamed.
\<close>

record AgentCapability =
  cap_name :: string
  cap_description :: string
  cap_version :: string
  enabled :: bool

record AgentPricing =
  pricePerTask :: "real option"
  currency :: string

record AgentLiveData =
  githubStars :: "int option"
  githubForks :: "int option"
  githubCommits30d :: "int option"
  githubLastPush :: "string option"
  githubRelease :: "string option"
  tokenPrice :: "real option"
  tokenChange24h :: "real option"
  tokenVolume24h :: "real option"
  tokenSymbol :: "string option"
  lastCrawledAt :: string
  crawlSource :: "string list"
  liveScore :: "int option"

text \<open>
  \<open>reputation\<close> is an integer score; \<open>tasksCompleted\<close> is a counter that starts at a
  non-negative count and is only ever incremented, hence a \<open>nat\<close>; \<open>successRate\<close> is a
  percentage with a fractional part in the seed data.
\<close>

record AgentProfile =
  agent_id :: string
  name :: string
  description :: string
  version :: string
  publicKey :: "string option"
  website :: "string option"
  github :: "string option"
  twitter :: "string option"
  category :: "string option"
  tags :: "string list option"
  isExternal :: "bool option"
  capabilities :: "AgentCapability list"
  reputation :: int
  tasksCompleted :: nat
  successRate :: real
  createdAt :: date
  lastActive :: date
  pricing :: "AgentPricing option"
  liveData :: "AgentLiveData option"

record SkillParameter =
  param_name :: string
  param_type :: string
  param_description :: string
  required :: bool
  param_default :: jsval

record AgentSkill =
  skill_id :: string
  skill_name :: string
  skill_description :: string
  skill_category :: string
  nftMint :: "string option"
  owner :: "string option"
  handler :: string
  parameters :: "SkillParameter list"
  price :: "real option"
  royalty :: "real option"
  usageCount :: nat
  rating :: real

datatype task_status = pending | running | completed | failed

record TaskPayment =
  amount :: real
  payment_currency :: string
  payer :: string
  signature :: "string option"

text \<open>
  \<open>result\<close> has type \<open>any\<close>: an absent result and a result set to \<open>undefined\<close> are
  both \<open>JUndefined\<close> (every read of the property gives \<open>undefined\<close> in either case).
\<close>

record AgentTask =
  task_id :: string
  task_agentId :: string
  task_skillId :: string
  task_description :: string
  task_parameters :: "(string \<times> jsval) list"
  status :: task_status
  result :: jsval
  error :: "string option"
  payment :: "TaskPayment option"
  task_createdAt :: date
  startedAt :: "date option"
  completedAt :: "date option"

text \<open>
  A JavaScript \<open>Map\<close> with string keys is an association list in insertion order:
  \<open>get\<close> is \<open>map_of\<close>, and \<open>set\<close> is \<open>AList.update\<close>, which replaces the value of a
  key that is present at its position and appends a new key at the end, as \<open>Map.set\<close>
  does. The entities are objects that the source mutates in place through the reference
  \<open>get\<close> returned; every object is stored under one key only, so the model writes the
  changed object back under that key.
\<close>

type_synonym 'v jsmap = "(string \<times> 'v) list"

record AgentRegistry =
  agents :: "AgentProfile jsmap"
  skills :: "AgentSkill jsmap"
  tasks :: "AgentTask jsmap"

section \<open>The registry (class SAPRegistry, src/agent-protocol/seed.ts from line 168)\<close>

text \<open>
  The constructor. The class also holds an RPC connection and a local agent id; neither
  is read or written by the operations below.
\<close>

definition newRegistry :: AgentRegistry where
  "newRegistry = \<lparr>agents = [], skills = [], tasks = []\<rparr>"

text \<open>
  \<open>generateAgentId\<close> draws 16 random bytes and \<open>new Date()\<close> reads the clock: the
  generated id and the clock readings are arguments of the model. \<open>registerAgent\<close> reads
  the clock twice. The argument has type \<open>Omit<AgentProfile, 'id' | 'createdAt' |
  'lastActive'>\<close>; the object spread copies it and the properties written after the spread
  replace whatever it held.
\<close>

definition registerAgent ::
  "string \<Rightarrow> date \<Rightarrow> date \<Rightarrow> AgentProfile \<Rightarrow> AgentRegistry \<Rightarrow> string \<times> AgentRegistry" where
  "registerAgent agentId now1 now2 profile r =
     (let fullProfile = profile
            \<lparr>agent_id := agentId,
             createdAt := now1,
             lastActive := now2,
             reputation := 0,
             tasksCompleted := 0,
             successRate := 100\<rparr>
      in (agentId, r\<lparr>agents := AList.update agentId fullProfile (agents r)\<rparr>))"

definition getAgent :: "AgentRegistry \<Rightarrow> string \<Rightarrow> AgentProfile option" where
  "getAgent r agentId = map_of (agents r) agentId"

definition listAgents :: "AgentRegistry \<Rightarrow> AgentProfile list" where
  "listAgents r = map snd (agents r)"

definition registerExternalAgent ::
  "string \<Rightarrow> date \<Rightarrow> date \<Rightarrow> AgentProfile \<Rightarrow> AgentRegistry \<Rightarrow> string \<times> AgentRegistry" where
  "registerExternalAgent agentId now1 now2 profile r =
     (let fullProfile = profile
            \<lparr>agent_id := agentId,
             createdAt := now1,
             lastActive := now2\<rparr>
      in (agentId, r\<lparr>agents := AList.update agentId fullProfile (agents r)\<rparr>))"

definition updateReputation :: "date \<Rightarrow> string \<Rightarrow> bool \<Rightarrow> AgentRegistry \<Rightarrow> AgentRegistry" where
  "updateReputation now agentId taskSuccess r =
     (case map_of (agents r) agentId of
        None \<Rightarrow> r
      | Some agent \<Rightarrow>
          (let agent = agent\<lparr>tasksCompleted := tasksCompleted agent + 1\<rparr>;
               agent = (if taskSuccess
                        then agent\<lparr>reputation := min 100 (reputation agent + 1)\<rparr>
                        else agent\<lparr>reputation := max 0 (reputation agent - 2)\<rparr>);
               agent = agent\<lparr>successRate :=
                          (real_of_int (reputation agent) / real (tasksCompleted agent)) * 100\<rparr>;
               agent = agent\<lparr>lastActive := now\<rparr>
           in r\<lparr>agents := AList.update agentId agent (agents r)\<rparr>))"

definition registerSkill :: "string \<Rightarrow> AgentSkill \<Rightarrow> AgentRegistry \<Rightarrow> string \<times> AgentRegistry" where
  "registerSkill skillId skill r =
     (let fullSkill = skill\<lparr>skill_id := skillId, usageCount := 0, rating := 0\<rparr>
      in (skillId, r\<lparr>skills := AList.update skillId fullSkill (skills r)\<rparr>))"

definition getSkill :: "AgentRegistry \<Rightarrow> string \<Rightarrow> AgentSkill option" where
  "getSkill r skillId = map_of (skills r) skillId"

definition createTask ::
  "string \<Rightarrow> date \<Rightarrow> string \<Rightarrow> string \<Rightarrow> string \<Rightarrow> (string \<times> jsval) list \<Rightarrow> AgentRegistry
     \<Rightarrow> string \<times> AgentRegistry" where
  "createTask taskId now agentId skillId descr params r =
     (let task = \<lparr>task_id = taskId, task_agentId = agentId, task_skillId = skillId, task_description = descr,
                  task_parameters = params, status = pending, result = JUndefined,
                  error = None, payment = None, task_createdAt = now, startedAt = None,
                  completedAt = None\<rparr>
      in (taskId, r\<lparr>tasks := AList.update taskId task (tasks r)\<rparr>))"

text \<open>
  \<open>updateTaskStatus\<close> reads the clock for \<open>startedAt\<close> or \<open>completedAt\<close> and, through
  \<open>updateReputation\<close>, for \<open>lastActive\<close>: \<open>now\<close> and \<open>now'\<close>. The optional arguments
  \<open>result\<close> and \<open>error\<close> are \<open>JUndefined\<close> and \<open>None\<close> when the caller leaves them out.
\<close>

definition updateTaskStatus ::
  "date \<Rightarrow> date \<Rightarrow> string \<Rightarrow> task_status \<Rightarrow> jsval \<Rightarrow> string option \<Rightarrow> AgentRegistry
     \<Rightarrow> AgentRegistry" where
  "updateTaskStatus now now' taskId st res err r =
     (case map_of (tasks r) taskId of
        None \<Rightarrow> r
      | Some task \<Rightarrow>
          (let task = task\<lparr>status := st\<rparr>;
               task = (if st = running \<and> startedAt task = None
                       then task\<lparr>startedAt := Some now\<rparr> else task)
           in if st = completed \<or> st = failed
              then (let task = task\<lparr>completedAt := Some now, result := res, error := err\<rparr>;
                        r = r\<lparr>tasks := AList.update taskId task (tasks r)\<rparr>;
                        r = updateReputation now' (task_agentId task) (st = completed) r
                    in case map_of (skills r) (task_skillId task) of
                         None \<Rightarrow> r
                       | Some skill \<Rightarrow>
                           r\<lparr>skills := AList.update (task_skillId task)
                                          (skill\<lparr>usageCount := usageCount skill + 1\<rparr>) (skills r)\<rparr>)
              else r\<lparr>tasks := AList.update taskId task (tasks r)\<rparr>))"

definition getTask :: "AgentRegistry \<Rightarrow> string \<Rightarrow> AgentTask option" where
  "getTask r taskId = map_of (tasks r) taskId"

section \<open>Seeding (src/agent-protocol/seed.ts, SAPProtocol.seedRealAgents)\<close>

record SeedAgent =
  seed_name :: string
  seed_description :: string
  seed_version :: string
  seed_category :: string
  seed_website :: "string option"
  seed_github :: "string option"
  seed_twitter :: "string option"
  seed_tags :: "string list"
  seed_capabilities :: "string list"
  seed_reputation :: int
  seed_tasksCompleted :: nat
  seed_successRate :: real

text \<open>Three of the ten entries of \<open>REAL_SOLANA_AGENTS\<close>, as they stand in the source.\<close>

definition seed_SolanaAgentKit :: SeedAgent where
  "seed_SolanaAgentKit =
     \<lparr>seed_name = ''Solana Agent Kit'',
      seed_description = ''Open-source toolkit by Sendai for building AI agents on Solana. Supports 60+ on-chain actions: token swaps via Jupiter, NFT minting via Metaplex, DeFi interactions, wallet management, and more. The most widely adopted Solana agent framework.'',
      seed_version = ''1.0.0'',
      seed_category = ''framework'',
      seed_website = Some ''https://www.solanaagentkit.xyz'',
      seed_github = Some ''https://github.com/sendaifun/solana-agent-kit'',
      seed_twitter = Some ''https://twitter.com/sendaifun'',
      seed_tags = [''framework'', ''open-source'', ''sendai'', ''jupiter'', ''metaplex'', ''defi''],
      seed_capabilities = [''Token Swaps'', ''NFT Minting'', ''Wallet Management'', ''DeFi'', ''Staking''],
      seed_reputation = 91,
      seed_tasksCompleted = 48200,
      seed_successRate = 97.4\<rparr>"

definition seed_BonkBot :: SeedAgent where
  "seed_BonkBot =
     \<lparr>seed_name = ''BonkBot'',
      seed_description = ''Telegram trading bot for Solana with 300k+ active users. Executes token swaps, limit orders, and copy trading directly from Telegram. Real-time price tracking and portfolio management. One of the highest-volume bots on Solana.'',
      seed_version = ''3.1.0'',
      seed_category = ''trading'',
      seed_website = Some ''https://t.me/bonkbot_bot'',
      seed_github = None,
      seed_twitter = Some ''https://twitter.com/bonkbot_io'',
      seed_tags = [''trading'', ''telegram'', ''swap'', ''popular'', ''copy-trade''],
      seed_capabilities = [''Token Swaps'', ''Limit Orders'', ''Copy Trading'', ''Portfolio Tracking''],
      seed_reputation = 89,
      seed_tasksCompleted = 5800000,
      seed_successRate = 96.8\<rparr>"

definition seed_PhotonSol :: SeedAgent where
  "seed_PhotonSol =
     \<lparr>seed_name = ''Photon Sol'',
      seed_description = ''High-performance Solana trading terminal with built-in bot automation. Supports new token sniping, limit orders, auto-sell on pump.fun and Raydium. 100k+ traders. Advanced analytics with wallet tracking and alpha detection.'',
      seed_version = ''4.0.0'',
      seed_category = ''trading'',
      seed_website = Some ''https://photon-sol.tinyastro.io'',
      seed_github = None,
      seed_twitter = Some ''https://twitter.com/PhotonSol'',
      seed_tags = [''trading'', ''sniper'', ''terminal'', ''analytics'', ''pump.fun''],
      seed_capabilities = [''Sniping'', ''Limit Orders'', ''Auto-Sell'', ''Wallet Tracking'', ''Analytics''],
      seed_reputation = 83,
      seed_tasksCompleted = 3400000,
      seed_successRate = 93.7\<rparr>"

text \<open>
  The object that \<open>seedRealAgents\<close> passes to \<open>registerExternalAgent\<close> for one seed. The
  three properties that the argument type omits are empty here; the registry writes them.
\<close>

definition seedProfile :: "SeedAgent \<Rightarrow> AgentProfile" where
  "seedProfile seed =
     \<lparr>agent_id = [],
      name = seed_name seed,
      description = seed_description seed,
      version = seed_version seed,
      publicKey = None,
      website = seed_website seed,
      github = seed_github seed,
      twitter = seed_twitter seed,
      category = Some (seed_category seed),
      tags = Some (seed_tags seed),
      isExternal = Some True,
      capabilities =
        map (\<lambda>n. \<lparr>cap_name = n, cap_description = n, cap_version = seed_version seed,
                   enabled = True\<rparr>) (seed_capabilities seed),
      reputation = seed_reputation seed,
      tasksCompleted = seed_tasksCompleted seed,
      successRate = seed_successRate seed,
      createdAt = [],
      lastActive = [],
      pricing = None,
      liveData = None\<rparr>"

section \<open>The skill manager (class SkillManager, unnamed/part_004)\<close>

text \<open>
  A parameter bag (\<open>Record<string, any>\<close>) is the list of its own properties. A handler
  is an opaque asynchronous function of the bag: it either resolves with a payload
  (\<open>Inr\<close>) or throws (\<open>Inl\<close>, the message). The built-in handlers reach the outside
  world through the Solana collaborator only; the model takes every handler to leave the
  registry alone.
\<close>

type_synonym params = "(string \<times> jsval) list"

type_synonym skill_handler = "params \<Rightarrow> string + jsval"

text \<open>The four \<open>throw\<close> sites of \<open>executeSkill\<close>, with what their messages carry.\<close>

datatype skill_error =
    SkillNotFound string
  | HandlerNotFound string
  | MissingRequiredParameter string
  | HandlerThrew string

text \<open>
  The \<open>in\<close> operator looks a property up on the object and on its prototype chain, so
  the property names of \<open>Object.prototype\<close> are \<open>in\<close> every plain object.
\<close>

definition objectPrototypeProps :: "string list" where
  "objectPrototypeProps =
     [''constructor'', ''__defineGetter__'', ''__defineSetter__'', ''hasOwnProperty'',
      ''__lookupGetter__'', ''__lookupSetter__'', ''isPrototypeOf'', ''propertyIsEnumerable'',
      ''toString'', ''valueOf'', ''__proto__'', ''toLocaleString'']"

definition js_in :: "string \<Rightarrow> params \<Rightarrow> bool" where
  "js_in k obj = (k \<in> set (map fst obj) \<or> k \<in> set objectPrototypeProps)"

definition executeSkill ::
  "skill_handler jsmap \<Rightarrow> string \<Rightarrow> params \<Rightarrow> AgentRegistry
     \<Rightarrow> (skill_error + jsval) \<times> AgentRegistry" where
  "executeSkill skillHandlers skillId ps r =
     (case getSkill r skillId of
        None \<Rightarrow> (Inl (SkillNotFound skillId), r)
      | Some skill \<Rightarrow>
          (case map_of skillHandlers skillId of
             None \<Rightarrow> (Inl (HandlerNotFound (skill_name skill)), r)
           | Some h \<Rightarrow>
               (case find (\<lambda>param. required param \<and> \<not> js_in (param_name param) ps)
                       (parameters skill) of
                  Some param \<Rightarrow> (Inl (MissingRequiredParameter (param_name param)), r)
                | None \<Rightarrow>
                    (case h ps of
                       Inl msg \<Rightarrow> (Inl (HandlerThrew msg), r)
                     | Inr res \<Rightarrow>
                         (Inr res,
                          case getSkill r skillId of
                            None \<Rightarrow> r
                          | Some updatedSkill \<Rightarrow>
                              r\<lparr>skills := AList.update skillId
                                    (updatedSkill\<lparr>usageCount := usageCount updatedSkill + 1\<rparr>)
                                    (skills r)\<rparr>)))))"

text \<open>The first built-in skill of \<open>initializeBuiltInSkills\<close>.\<close>

definition balanceChecker :: AgentSkill where
  "balanceChecker =
     \<lparr>skill_id = [],
      skill_name = ''Balance Checker'',
      skill_description = ''Check SOL and SPL token balances for any wallet'',
      skill_category = ''analytics'',
      nftMint = None,
      owner = None,
      handler = ''checkBalance'',
      parameters =
        [\<lparr>param_name = ''address'', param_type = ''address'',
          param_description = ''Solana wallet address'', required = True,
          param_default = JUndefined\<rparr>],
      price = None,
      royalty = None,
      usageCount = 0,
      rating = 0\<rparr>"

section \<open>The crawler (src/monitor/crawler.ts, src/monitor/dexscreener.ts)\<close>

definition AGENT_TOKEN_MAP :: "string jsmap" where
  "AGENT_TOKEN_MAP =
     [(''BonkBot'', ''DezXAZ8z7PnrnRJjz3wXBoRgixCa6xjnB7YaB1pPB263''),
      (''Drift Keeper Bot'', ''DriFtupJYLTosbwoN8koMbEYSx54aFAVLddWsbksjwg7''),
      (''Jito MEV Bot'', ''jtojtomepa8beP8AuQc6eXt5FriJwfFMwjx2ZEPnxR9''),
      (''Eliza (ai16z)'', ''HeLp6NuQkmYB4pYWo2zYs22mESHXPQYzXbB8n4V98jwC''),
      (''Solana Agent Kit'', ''JUPyiwrYJFskUPiHa7hkeR8VUtAeFoSYbKedZNsDvCN'')]"

text \<open>
  What one cycle meets outside the process: the clock of \<open>Date.now()\<close>, the date parser,
  and the outcome of the two HTTP fetchers, \<open>fetchGitHubStats\<close> by repository URL and
  \<open>fetchTokenData\<close> by mint address. A fetch throws (\<open>Inl\<close>), returns \<open>null\<close>
  (\<open>Inr None\<close>) or returns data. The model fixes one such world for the cycle.
\<close>

record CrawlWorld =
  dateNow :: int
  getTime :: "string \<Rightarrow> int option"
  fetchGitHubStats :: "string \<Rightarrow> string + GitHubStats option"
  fetchTokenData :: "string \<Rightarrow> string + DexTokenData option"

text \<open>
  \<open>AGENT_TOKEN_MAP[agentName]\<close> indexes a plain object: it finds the five own entries
  and, for a name that is a property name of \<open>Object.prototype\<close>, the inherited member,
  which is a function (for \<open>__proto__\<close> the prototype object itself) and so is truthy.
  \<open>fetchTokenData\<close> puts its argument into the request URL through a template literal;
  \<open>inheritedMintText\<close> is the text an inherited member turns into there.
\<close>

definition inheritedMintText :: "string \<Rightarrow> string" where
  "inheritedMintText k =
     (if k = ''__proto__'' then ''[object Object]''
      else if k = ''constructor'' then ''function Object() { [native code] }''
      else ''function '' @ k @ ''() { [native code] }'')"

definition lookupTokenMint :: "string \<Rightarrow> string option" where
  "lookupTokenMint agentName =
     (case map_of AGENT_TOKEN_MAP agentName of
        Some mint \<Rightarrow> Some mint
      | None \<Rightarrow>
          if agentName \<in> set objectPrototypeProps then Some (inheritedMintText agentName)
          else None)"

text \<open>\<open>if (!mint) return null\<close>: nothing found, or an empty string.\<close>

definition fetchAgentTokenData :: "CrawlWorld \<Rightarrow> string \<Rightarrow> string + DexTokenData option" where
  "fetchAgentTokenData w agentName =
     (case lookupTokenMint agentName of
        None \<Rightarrow> Inr None
      | Some mint \<Rightarrow> if mint = [] then Inr None else fetchTokenData w mint)"










section \<open>Export and import (SAPRegistry.exportData, SAPRegistry.importData)\<close>

subsection \<open>JSON\<close>




text \<open>
  A JSON text is represented by what \<open>JSON.parse\<close> makes of it: \<open>Some\<close> of the parsed
  value, or \<open>None\<close> when \<open>JSON.parse\<close> throws a \<open>SyntaxError\<close>. Every string is one or
  the other, so a statement about all values of this type is about all input strings.
\<close>

type_synonym json_text = "jsval option"

datatype js_exception = SyntaxError | TypeError

subsection \<open>The Map constructor\<close>

text \<open>
  After an import the three maps hold whatever the text held, so the maps of this part
  are maps from values to values. \<open>Map\<close> compares keys by SameValueZero: primitives by
  value, objects by identity; the objects met here come fresh out of \<open>JSON.parse\<close>, and
  are never the same object as a key already in the map.
\<close>

type_synonym rawmap = "(jsval \<times> jsval) list"

fun isObject :: "jsval \<Rightarrow> bool" where
  "isObject (JArr xs) = True"
| "isObject (JObj ps) = True"
| "isObject (JDate d) = True"
| "isObject v = False"

definition sameValueZero :: "jsval \<Rightarrow> jsval \<Rightarrow> bool" where
  "sameValueZero a b = (\<not> isObject a \<and> a = b)"

fun mapSet :: "jsval \<Rightarrow> jsval \<Rightarrow> rawmap \<Rightarrow> rawmap" where
  "mapSet k v [] = [(k, v)]"
| "mapSet k v (e # m) = (if sameValueZero (fst e) k then (fst e, v) # m else e # mapSet k v m)"

text \<open>
  The constructor reads \<open>item[0]\<close> and \<open>item[1]\<close> of every item of the iterable, and
  throws a \<open>TypeError\<close> (\<open>None\<close>) on an item that is not an object.
\<close>

fun entryOf :: "jsval \<Rightarrow> (jsval \<times> jsval) option" where
  "entryOf (JArr xs) =
     Some (if length xs > 0 then xs ! 0 else JUndefined,
           if length xs > 1 then xs ! 1 else JUndefined)"
| "entryOf (JObj ps) =
     Some (case map_of ps ''0'' of None \<Rightarrow> JUndefined | Some v \<Rightarrow> v,
           case map_of ps ''1'' of None \<Rightarrow> JUndefined | Some v \<Rightarrow> v)"
| "entryOf (JDate d) = Some (JUndefined, JUndefined)"
| "entryOf v = None"

fun newMapFrom :: "jsval list \<Rightarrow> rawmap \<Rightarrow> rawmap option" where
  "newMapFrom [] m = Some m"
| "newMapFrom (item # items) m =
     (case entryOf item of
        None \<Rightarrow> None
      | Some (k, v) \<Rightarrow> newMapFrom items (mapSet k v m))"

text \<open>
  \<open>new Map(x)\<close>: empty for \<open>undefined\<close> and \<open>null\<close>; filled from an array; a string is
  iterable and its items are one-character strings, which are not objects; numbers,
  booleans and plain objects are not iterable.
\<close>

fun newMap :: "jsval \<Rightarrow> rawmap option" where
  "newMap JUndefined = Some []"
| "newMap JNull = Some []"
| "newMap (JArr xs) = newMapFrom xs []"
| "newMap (JStr s) = (if s = [] then Some [] else None)"
| "newMap v = None"

text \<open>
  \<open>parsed.agents\<close> and its two siblings: a \<open>TypeError\<close> (\<open>None\<close>) on \<open>null\<close>, the
  property of an object, and \<open>undefined\<close> on anything else (no array, string, number or
  boolean has a property of one of these three names).
\<close>

fun readField :: "jsval \<Rightarrow> string \<Rightarrow> jsval option" where
  "readField JUndefined k = None"
| "readField JNull k = None"
| "readField (JObj ps) k = Some (case map_of ps k of None \<Rightarrow> JUndefined | Some v \<Rightarrow> v)"
| "readField v k = Some JUndefined"

subsection \<open>The two operations\<close>

record RawRegistry =
  raw_agents :: rawmap
  raw_skills :: rawmap
  raw_tasks :: rawmap



text \<open>\<open>new Map(parsed.k)\<close>: \<open>None\<close> when reading the field or building the map throws.\<close>

definition loadMap :: "jsval \<Rightarrow> string \<Rightarrow> rawmap option" where
  "loadMap parsed k = Option.bind (readField parsed k) newMap"

text \<open>
  The \<open>try\<close> block of \<open>importData\<close>: the registry as the block leaves it, and the
  exception that ended it, if one did. Each of the three statements reads a field, builds
  the map and only then assigns it.
\<close>

definition importTry :: "json_text \<Rightarrow> RawRegistry \<Rightarrow> RawRegistry \<times> js_exception option" where
  "importTry data r =
     (case data of
        None \<Rightarrow> (r, Some SyntaxError)
      | Some parsed \<Rightarrow>
          (case loadMap parsed ''agents'' of
             None \<Rightarrow> (r, Some TypeError)
           | Some am \<Rightarrow>
               (let r = r\<lparr>raw_agents := am\<rparr>
                in case loadMap parsed ''skills'' of
                     None \<Rightarrow> (r, Some TypeError)
                   | Some sm \<Rightarrow>
                       (let r = r\<lparr>raw_skills := sm\<rparr>
                        in case loadMap parsed ''tasks'' of
                             None \<Rightarrow> (r, Some TypeError)
                           | Some tm \<Rightarrow> (r\<lparr>raw_tasks := tm\<rparr>, None)))))"

text \<open>
  The \<open>catch\<close> clause takes every exception of the block, so \<open>importData\<close> always
  returns: with the registry and the line it wrote to the console.
\<close>

datatype console_line = ImportedSuccessfully | FailedToImport js_exception

definition importData :: "json_text \<Rightarrow> RawRegistry \<Rightarrow> RawRegistry \<times> console_line" where
  "importData data r =
     (case importTry data r of
        (r', None) \<Rightarrow> (r', ImportedSuccessfully)
      | (r', Some e) \<Rightarrow> (r', FailedToImport e))"

subsection \<open>The entities as JavaScript objects\<close>

text \<open>
  The objects that the typed maps hold, property by property as the interfaces of the
  type definitions declare them. An optional property that is absent is left out, and so
  is a property of type \<open>any\<close> that holds \<open>undefined\<close>: it reads as \<open>undefined\<close>
  either way.
\<close>

definition optProp :: "string \<Rightarrow> ('a \<Rightarrow> jsval) \<Rightarrow> 'a option \<Rightarrow> (string \<times> jsval) list" where
  "optProp k f x = (case x of None \<Rightarrow> [] | Some y \<Rightarrow> [(k, f y)])"

definition anyProp :: "string \<Rightarrow> jsval \<Rightarrow> (string \<times> jsval) list" where
  "anyProp k v = (if v = JUndefined then [] else [(k, v)])"


definition encStrings :: "string list \<Rightarrow> jsval" where
  "encStrings xs = JArr (map JStr xs)"

definition encInt :: "int \<Rightarrow> jsval" where
  "encInt n = JNum (real_of_int n)"

definition encNat :: "nat \<Rightarrow> jsval" where
  "encNat n = JNum (real n)"

definition encCapability :: "AgentCapability \<Rightarrow> jsval" where
  "encCapability c =
     JObj [(''name'', JStr (cap_name c)),
           (''description'', JStr (cap_description c)),
           (''version'', JStr (cap_version c)),
           (''enabled'', JBool (enabled c))]"

definition encPricing :: "AgentPricing \<Rightarrow> jsval" where
  "encPricing p =
     JObj (optProp ''pricePerTask'' JNum (pricePerTask p) @ [(''currency'', JStr (currency p))])"

definition encLiveData :: "AgentLiveData \<Rightarrow> jsval" where
  "encLiveData d =
     JObj (optProp ''githubStars'' encInt (githubStars d)
         @ optProp ''githubForks'' encInt (githubForks d)
         @ optProp ''githubCommits30d'' encInt (githubCommits30d d)
         @ optProp ''githubLastPush'' JStr (githubLastPush d)
         @ optProp ''githubRelease'' JStr (githubRelease d)
         @ optProp ''tokenPrice'' JNum (tokenPrice d)
         @ optProp ''tokenChange24h'' JNum (tokenChange24h d)
         @ optProp ''tokenVolume24h'' JNum (tokenVolume24h d)
         @ optProp ''tokenSymbol'' JStr (tokenSymbol d)
         @ [(''lastCrawledAt'', JStr (lastCrawledAt d)),
            (''crawlSource'', encStrings (crawlSource d))]
         @ optProp ''liveScore'' encInt (liveScore d))"

definition agentProps :: "AgentProfile \<Rightarrow> (string \<times> jsval) list" where
  "agentProps a =
     [(''id'', JStr (agent_id a)),
      (''name'', JStr (name a)),
      (''description'', JStr (description a)),
      (''version'', JStr (version a))]
     @ optProp ''publicKey'' JStr (publicKey a)
     @ optProp ''website'' JStr (website a)
     @ optProp ''github'' JStr (github a)
     @ optProp ''twitter'' JStr (twitter a)
     @ optProp ''category'' JStr (category a)
     @ optProp ''tags'' encStrings (tags a)
     @ optProp ''isExternal'' JBool (isExternal a)
     @ [(''capabilities'', JArr (map encCapability (capabilities a))),
        (''reputation'', encInt (reputation a)),
        (''tasksCompleted'', encNat (tasksCompleted a)),
        (''successRate'', JNum (successRate a)),
        (''createdAt'', JDate (createdAt a)),
        (''lastActive'', JDate (lastActive a))]
     @ optProp ''pricing'' encPricing (pricing a)
     @ optProp ''liveData'' encLiveData (liveData a)"

definition encAgent :: "AgentProfile \<Rightarrow> jsval" where
  "encAgent a = JObj (agentProps a)"

definition encParameter :: "SkillParameter \<Rightarrow> jsval" where
  "encParameter p =
     JObj ([(''name'', JStr (param_name p)),
            (''type'', JStr (param_type p)),
            (''description'', JStr (param_description p)),
            (''required'', JBool (required p))]
         @ anyProp ''default'' (param_default p))"

definition skillProps :: "AgentSkill \<Rightarrow> (string \<times> jsval) list" where
  "skillProps s =
     [(''id'', JStr (skill_id s)),
      (''name'', JStr (skill_name s)),
      (''description'', JStr (skill_description s)),
      (''category'', JStr (skill_category s))]
     @ optProp ''nftMint'' JStr (nftMint s)
     @ optProp ''owner'' JStr (owner s)
     @ [(''handler'', JStr (handler s)),
        (''parameters'', JArr (map encParameter (parameters s)))]
     @ optProp ''price'' JNum (price s)
     @ optProp ''royalty'' JNum (royalty s)
     @ [(''usageCount'', encNat (usageCount s)),
        (''rating'', JNum (rating s))]"

definition encSkill :: "AgentSkill \<Rightarrow> jsval" where
  "encSkill s = JObj (skillProps s)"

fun encStatus :: "task_status \<Rightarrow> jsval" where
  "encStatus pending = JStr ''pending''"
| "encStatus running = JStr ''running''"
| "encStatus completed = JStr ''completed''"
| "encStatus failed = JStr ''failed''"

definition encPayment :: "TaskPayment \<Rightarrow> jsval" where
  "encPayment p =
     JObj ([(''amount'', JNum (amount p)),
            (''currency'', JStr (payment_currency p)),
            (''payer'', JStr (payer p))]
         @ optProp ''signature'' JStr (signature p))"

definition taskProps :: "AgentTask \<Rightarrow> (string \<times> jsval) list" where
  "taskProps t =
     [(''id'', JStr (task_id t)),
      (''agentId'', JStr (task_agentId t)),
      (''skillId'', JStr (task_skillId t)),
      (''description'', JStr (task_description t)),
      (''parameters'', JObj (task_parameters t)),
      (''status'', encStatus (status t))]
     @ anyProp ''result'' (result t)
     @ optProp ''error'' JStr (error t)
     @ optProp ''payment'' encPayment (payment t)
     @ [(''createdAt'', JDate (task_createdAt t))]
     @ optProp ''startedAt'' JDate (startedAt t)
     @ optProp ''completedAt'' JDate (completedAt t)"

definition encTask :: "AgentTask \<Rightarrow> jsval" where
  "encTask t = JObj (taskProps t)"

definition encMap :: "('v \<Rightarrow> jsval) \<Rightarrow> 'v jsmap \<Rightarrow> rawmap" where
  "encMap enc m = map (\<lambda>e. (JStr (fst e), enc (snd e))) m"

definition toRaw :: "AgentRegistry \<Rightarrow> RawRegistry" where
  "toRaw r =
     \<lparr>raw_agents = encMap encAgent (agents r),
      raw_skills = encMap encSkill (skills r),
      raw_tasks = encMap encTask (tasks r)\<rparr>"

section \<open>A small registry to run the operations on\<close>

definition demoRegistry :: AgentRegistry where
  "demoRegistry =
     (let r = newRegistry;
          r = snd (registerExternalAgent ''a1'' ''2026-01-01T00:00:00.000Z''
                     ''2026-01-01T00:00:00.000Z'' (seedProfile seed_SolanaAgentKit) r);
          r = snd (registerExternalAgent ''a2'' ''2026-01-01T00:00:00.001Z''
                     ''2026-01-01T00:00:00.001Z'' (seedProfile seed_BonkBot) r);
          r = snd (registerExternalAgent ''a3'' ''2026-01-01T00:00:00.002Z''
                     ''2026-01-01T00:00:00.002Z'' (seedProfile seed_PhotonSol) r);
          r = snd (registerSkill ''s1'' balanceChecker r);
          r = snd (createTask ''t1'' ''2026-01-01T00:00:01.000Z'' ''a2'' ''s1''
                     ''check balance'' [(''query'', JStr ''check balance'')] r)
      in r)"

text \<open>A run of \<open>updateReputation\<close> calls, each with its clock reading, id and outcome.\<close>

definition updateReputationCalls ::
  "(date \<times> string \<times> bool) list \<Rightarrow> AgentRegistry \<Rightarrow> AgentRegistry" where
  "updateReputationCalls calls r =
     foldl (\<lambda>r (now, agentId, taskSuccess). updateReputation now agentId taskSuccess r) r calls"

text \<open>
  \<open>recordTask\<close> of the facade completes the task it has just created; a second and a
  third call of \<open>updateTaskStatus\<close> on the same task follow here.
\<close>

definition demoCompleted :: AgentRegistry where
  "demoCompleted =
     updateTaskStatus ''2026-01-01T00:00:02.000Z'' ''2026-01-01T00:00:02.000Z'' ''t1'' completed
       (JObj [(''description'', JStr ''check balance'')]) None demoRegistry"

definition demoCompletedThenFailed :: AgentRegistry where
  "demoCompletedThenFailed =
     updateTaskStatus ''2026-01-01T00:00:03.000Z'' ''2026-01-01T00:00:03.000Z'' ''t1'' failed
       JUndefined (Some ''Command failed'') demoCompleted"

definition demoCompletedThenPending :: AgentRegistry where
  "demoCompletedThenPending =
     updateTaskStatus ''2026-01-01T00:00:03.000Z'' ''2026-01-01T00:00:03.000Z'' ''t1'' pending
       JUndefined None demoCompleted"

text \<open>
  A stand-in for the handler of the balance checker, whose real body asks the RPC node:
  it throws on an address that is not a non-empty string and resolves otherwise.
\<close>

definition demoHandlers :: "skill_handler jsmap" where
  "demoHandlers =
     [(''s1'', \<lambda>ps. case map_of ps ''address'' of
                       Some (JStr a) \<Rightarrow>
                         if a = [] then Inl ''Invalid public key input''
                         else Inr (JStr ''Balance: 1 SOL'')
                     | _ \<Rightarrow> Inl ''Invalid public key input'')]"



definition reputationInRange :: "AgentRegistry \<Rightarrow> bool" where
  "reputationInRange r =
     list_all (\<lambda>a. 0 \<le> reputation a \<and> reputation a \<le> 100) (listAgents r)"

section \<open>Properties of the association-list maps\<close>

lemma update_present_keys:
  "map_of al k = Some v \<Longrightarrow> map fst (AList.update k v' al) = map fst al"
  by (induction al) (auto split: if_splits)

lemma update_list_all:
  "list_all P (map snd al) \<Longrightarrow> P v \<Longrightarrow> list_all P (map snd (AList.update k v al))"
  by (induction al) auto

section \<open>The small registry, evaluated\<close>

lemma demoRegistry_eval:
  "demoRegistry =
     \<lparr>agents =
        [(''a1'', (seedProfile seed_SolanaAgentKit)
                   \<lparr>agent_id := ''a1'', createdAt := ''2026-01-01T00:00:00.000Z'',
                    lastActive := ''2026-01-01T00:00:00.000Z''\<rparr>),
         (''a2'', (seedProfile seed_BonkBot)
                   \<lparr>agent_id := ''a2'', createdAt := ''2026-01-01T00:00:00.001Z'',
                    lastActive := ''2026-01-01T00:00:00.001Z''\<rparr>),
         (''a3'', (seedProfile seed_PhotonSol)
                   \<lparr>agent_id := ''a3'', createdAt := ''2026-01-01T00:00:00.002Z'',
                    lastActive := ''2026-01-01T00:00:00.002Z''\<rparr>)],
      skills = [(''s1'', balanceChecker\<lparr>skill_id := ''s1'', usageCount := 0, rating := 0\<rparr>)],
      tasks =
        [(''t1'', \<lparr>task_id = ''t1'', task_agentId = ''a2'', task_skillId = ''s1'',
                  task_description = ''check balance'',
                  task_parameters = [(''query'', JStr ''check balance'')], status = pending,
                  result = JUndefined, error = None, payment = None,
                  task_createdAt = ''2026-01-01T00:00:01.000Z'', startedAt = None,
                  completedAt = None\<rparr>)]\<rparr>"
  by (simp add: demoRegistry_def registerExternalAgent_def registerSkill_def createTask_def
      newRegistry_def)

section \<open>The two scores\<close>

lemma computeGitHubScore_bounds:
  "0 \<le> computeGitHubScore now gt stats \<and> computeGitHubScore now gt stats \<le> 10"
  by (simp add: computeGitHubScore_def Let_def split: option.split)

lemma computeDexScore_bounds:
  "- 3 \<le> computeDexScore token \<and> computeDexScore token \<le> 3"
  by (simp add: computeDexScore_def Let_def)

text \<open>
  C3. The doc comment of \<open>computeGitHubScore\<close> gives the range +0..+8. The three tiers
  add up to 6 + 2 + 2: a repository with 10000 stars and 20 commits in the last 30 days,
  pushed at the moment of the call, scores 10.
\<close>

theorem computeGitHubScore_above_documented_range:
  "computeGitHubScore 1767225600000
     (\<lambda>s. if s = ''2026-01-01T00:00:00Z'' then Some 1767225600000 else None)
     \<lparr>repo = ''ai16z/eliza'', stars = 10000, forks = 0, openIssues = 0,
      lastPush = ''2026-01-01T00:00:00Z'', latestRelease = None, commits30d = 20\<rparr> = 10"
  by (simp add: computeGitHubScore_def)

text \<open>
  C4. The doc comment of \<open>computeDexScore\<close> gives the range -2..+2. A token with a 24h
  volume under 10000 USD that lost 50 percent in 24h scores -1 - 2 = -3.
\<close>

theorem computeDexScore_below_documented_range:
  "computeDexScore
     \<lparr>symbol = ''BONK'', priceUsd = 1 / 100000, change24h = - 50, volume24h = 5000,
      liquidity = None, pairAddress = None, dex = None\<rparr> = - 3"
  by (simp add: computeDexScore_def)

lemma computeDexScore_above_documented_range:
  "computeDexScore
     \<lparr>symbol = ''BONK'', priceUsd = 1 / 100000, change24h = 25, volume24h = 10000000,
      liquidity = None, pairAddress = None, dex = None\<rparr> = 3"
  by (simp add: computeDexScore_def)

section \<open>Reputation\<close>

lemma getAgent_demoRegistry_a2:
  "getAgent demoRegistry ''a2'' =
     Some ((seedProfile seed_BonkBot)
             \<lparr>agent_id := ''a2'', createdAt := ''2026-01-01T00:00:00.001Z'',
              lastActive := ''2026-01-01T00:00:00.001Z''\<rparr>)"
  by (simp add: demoRegistry_eval getAgent_def)

lemma getAgent_demoRegistry_unknown: "getAgent demoRegistry ''zz'' = None"
  by (simp add: demoRegistry_eval getAgent_def)

text \<open>
  C9. \<open>updateReputation\<close> on an id that is not in the store returns the store as it
  was. On the id of a stored agent \<open>a\<close> it leaves under that id the agent \<open>a\<close> with
  \<open>tasksCompleted\<close> one higher, \<open>reputation\<close> set to \<open>min 100 (reputation + 1)\<close> on
  success and to \<open>max 0 (reputation - 2)\<close> on failure, \<open>successRate\<close> set to the new
  reputation divided by the new \<open>tasksCompleted\<close>, times 100, and \<open>lastActive\<close> set to
  the clock reading; every other agent, the order of the keys, the skills and the tasks
  stay as they were.
\<close>

theorem updateReputation_postcondition:
  "(getAgent r agentId = None \<longrightarrow> updateReputation now agentId taskSuccess r = r) \<and>
   (\<forall>a. getAgent r agentId = Some a \<longrightarrow>
      getAgent (updateReputation now agentId taskSuccess r) agentId =
        Some (a\<lparr>tasksCompleted := tasksCompleted a + 1,
                reputation := (if taskSuccess then min 100 (reputation a + 1)
                               else max 0 (reputation a - 2)),
                successRate :=
                  real_of_int (if taskSuccess then min 100 (reputation a + 1)
                               else max 0 (reputation a - 2))
                    / real (tasksCompleted a + 1) * 100,
                lastActive := now\<rparr>) \<and>
      (\<forall>other. other \<noteq> agentId \<longrightarrow>
         getAgent (updateReputation now agentId taskSuccess r) other = getAgent r other) \<and>
      map fst (agents (updateReputation now agentId taskSuccess r)) = map fst (agents r) \<and>
      skills (updateReputation now agentId taskSuccess r) = skills r \<and>
      tasks (updateReputation now agentId taskSuccess r) = tasks r)"
  by (auto simp: getAgent_def updateReputation_def Let_def update_conv' update_present_keys
      split: option.splits)

theorem updateReputation_postcondition_witness:
  "getAgent demoRegistry ''zz'' = None \<and>
   updateReputation ''2026-01-02T00:00:00.000Z'' ''zz'' True demoRegistry = demoRegistry \<and>
   map_option (\<lambda>a. (reputation a, tasksCompleted a, successRate a, lastActive a))
     (getAgent (updateReputation ''2026-01-02T00:00:00.000Z'' ''a2'' True demoRegistry) ''a2'') =
     Some (90, 5800001, 9000 / 5800001, ''2026-01-02T00:00:00.000Z'') \<and>
   map_option (\<lambda>a. (reputation a, tasksCompleted a, successRate a, lastActive a))
     (getAgent (updateReputation ''2026-01-02T00:00:00.000Z'' ''a2'' False demoRegistry) ''a2'') =
     Some (87, 5800001, 8700 / 5800001, ''2026-01-02T00:00:00.000Z'')"
  using getAgent_demoRegistry_a2 getAgent_demoRegistry_unknown
    updateReputation_postcondition
      [of demoRegistry "''a2''" "''2026-01-02T00:00:00.000Z''" True]
    updateReputation_postcondition
      [of demoRegistry "''a2''" "''2026-01-02T00:00:00.000Z''" False]
    updateReputation_postcondition
      [of demoRegistry "''zz''" "''2026-01-02T00:00:00.000Z''" True]
  by (simp add: seedProfile_def seed_BonkBot_def)

lemma updateReputation_keeps_range:
  assumes "reputationInRange r"
  shows "reputationInRange (updateReputation now agentId taskSuccess r)"
proof (cases "map_of (agents r) agentId")
  case None
  then show ?thesis using assms by (simp add: updateReputation_def)
next
  case (Some a)
  then have "a \<in> set (map snd (agents r))"
    by (force dest: map_of_SomeD)
  then have ra: "0 \<le> reputation a \<and> reputation a \<le> 100"
    using assms by (auto simp: reputationInRange_def listAgents_def list_all_iff)
  have all: "list_all (\<lambda>a. 0 \<le> reputation a \<and> reputation a \<le> 100) (map snd (agents r))"
    using assms by (simp add: reputationInRange_def listAgents_def)
  show ?thesis
    using ra Some
    by (auto simp: reputationInRange_def updateReputation_def listAgents_def Let_def
        intro!: update_list_all [OF all])
qed

lemma updateReputationCalls_keeps_range:
  "reputationInRange r \<Longrightarrow> reputationInRange (updateReputationCalls calls r)"
  unfolding updateReputationCalls_def
  by (induction calls arbitrary: r) (auto simp: updateReputation_keeps_range)

lemma newRegistry_in_range: "reputationInRange newRegistry"
  by (simp add: reputationInRange_def listAgents_def newRegistry_def)

lemma registerAgent_keeps_range:
  assumes "reputationInRange r"
  shows "reputationInRange (snd (registerAgent agentId now1 now2 profile r))"
proof -
  have all: "list_all (\<lambda>a. 0 \<le> reputation a \<and> reputation a \<le> 100) (map snd (agents r))"
    using assms by (simp add: reputationInRange_def listAgents_def)
  show ?thesis
    by (auto simp: reputationInRange_def registerAgent_def listAgents_def
        intro!: update_list_all [OF all])
qed

lemma demoRegistry_in_range: "reputationInRange demoRegistry"
  by (simp add: reputationInRange_def listAgents_def demoRegistry_eval seedProfile_def
      seed_BonkBot_def seed_PhotonSol_def seed_SolanaAgentKit_def)

text \<open>
  C8. If every agent of the store has its reputation within 0 and 100, then after every
  call of every finite run of \<open>updateReputation\<close> calls, whatever their ids and
  outcomes, every agent of the store still has its reputation within 0 and 100.
\<close>

theorem reputation_clamp_invariant:
  assumes "\<forall>a \<in> set (listAgents r). 0 \<le> reputation a \<and> reputation a \<le> 100"
  shows "\<forall>n. \<forall>a \<in> set (listAgents (updateReputationCalls (take n calls) r)).
           0 \<le> reputation a \<and> reputation a \<le> 100"
proof
  fix n
  have "reputationInRange r"
    using assms by (simp add: reputationInRange_def list_all_iff)
  then have "reputationInRange (updateReputationCalls (take n calls) r)"
    by (rule updateReputationCalls_keeps_range)
  then show "\<forall>a \<in> set (listAgents (updateReputationCalls (take n calls) r)).
           0 \<le> reputation a \<and> reputation a \<le> 100"
    by (simp add: reputationInRange_def list_all_iff)
qed

theorem reputation_clamp_invariant_witness:
  "reputationInRange demoRegistry \<and>
   reputationInRange
     (updateReputationCalls (replicate 12 (''2026-01-02T00:00:00.000Z'', ''a2'', True))
        demoRegistry) \<and>
   reputationInRange
     (updateReputationCalls (replicate 50 (''2026-01-02T00:00:00.000Z'', ''a2'', False))
        demoRegistry)"
proof -
  have h: "\<forall>a \<in> set (listAgents demoRegistry). 0 \<le> reputation a \<and> reputation a \<le> 100"
    using demoRegistry_in_range by (simp add: reputationInRange_def list_all_iff)
  have "\<forall>a \<in> set (listAgents (updateReputationCalls
            (take 12 (replicate 12 (''2026-01-02T00:00:00.000Z'', ''a2'', True))) demoRegistry)).
          0 \<le> reputation a \<and> reputation a \<le> 100"
    using reputation_clamp_invariant [OF h] by blast
  moreover have "\<forall>a \<in> set (listAgents (updateReputationCalls
            (take 50 (replicate 50 (''2026-01-02T00:00:00.000Z'', ''a2'', False))) demoRegistry)).
          0 \<le> reputation a \<and> reputation a \<le> 100"
    using reputation_clamp_invariant [OF h] by blast
  ultimately show ?thesis
    using demoRegistry_in_range by (simp add: reputationInRange_def list_all_iff)
qed

section \<open>Registration\<close>

text \<open>
  C7, as the claim states it, fails: \<open>registerAgent\<close> writes its three defaults after
  the spread. Given the profile of the first seed, which supplies reputation 91, 48200
  completed tasks and a success rate of 97.4, it stores 0, 0 and 100.
\<close>

theorem registerAgent_overrides_supplied_stats:
  "reputation (seedProfile seed_SolanaAgentKit) = 91 \<and>
   tasksCompleted (seedProfile seed_SolanaAgentKit) = 48200 \<and>
   successRate (seedProfile seed_SolanaAgentKit) = 97.4 \<and>
   map_option reputation
     (getAgent (snd (registerAgent ''a9'' ''2026-01-01T00:00:00.000Z'' ''2026-01-01T00:00:00.000Z''
                       (seedProfile seed_SolanaAgentKit) newRegistry)) ''a9'') = Some 0 \<and>
   map_option tasksCompleted
     (getAgent (snd (registerAgent ''a9'' ''2026-01-01T00:00:00.000Z'' ''2026-01-01T00:00:00.000Z''
                       (seedProfile seed_SolanaAgentKit) newRegistry)) ''a9'') = Some 0 \<and>
   map_option successRate
     (getAgent (snd (registerAgent ''a9'' ''2026-01-01T00:00:00.000Z'' ''2026-01-01T00:00:00.000Z''
                       (seedProfile seed_SolanaAgentKit) newRegistry)) ''a9'') = Some 100"
  by (simp add: registerAgent_def getAgent_def newRegistry_def seedProfile_def
      seed_SolanaAgentKit_def)

text \<open>
  C7, amended. \<open>registerAgent\<close> returns the generated id and stores under it the
  supplied profile with that id, the two clock readings, and reputation 0, tasksCompleted
  0 and successRate 100 whatever the profile supplied. \<open>registerExternalAgent\<close> returns
  the generated id and stores the supplied profile with that id and the two clock
  readings, the supplied reputation, tasksCompleted and successRate kept. Neither touches
  an agent stored under another id, a skill or a task.
\<close>

theorem registerAgent_postcondition:
  "fst (registerAgent newId now1 now2 profile r) = newId \<and>
   getAgent (snd (registerAgent newId now1 now2 profile r)) newId =
     Some (profile\<lparr>agent_id := newId, createdAt := now1, lastActive := now2,
                  reputation := 0, tasksCompleted := 0, successRate := 100\<rparr>) \<and>
   (\<forall>other. other \<noteq> newId \<longrightarrow>
      getAgent (snd (registerAgent newId now1 now2 profile r)) other = getAgent r other) \<and>
   skills (snd (registerAgent newId now1 now2 profile r)) = skills r \<and>
   tasks (snd (registerAgent newId now1 now2 profile r)) = tasks r \<and>
   fst (registerExternalAgent newId now1 now2 profile r) = newId \<and>
   getAgent (snd (registerExternalAgent newId now1 now2 profile r)) newId =
     Some (profile\<lparr>agent_id := newId, createdAt := now1, lastActive := now2\<rparr>) \<and>
   (\<forall>other. other \<noteq> newId \<longrightarrow>
      getAgent (snd (registerExternalAgent newId now1 now2 profile r)) other = getAgent r other) \<and>
   skills (snd (registerExternalAgent newId now1 now2 profile r)) = skills r \<and>
   tasks (snd (registerExternalAgent newId now1 now2 profile r)) = tasks r"
  by (simp add: registerAgent_def registerExternalAgent_def getAgent_def update_conv')

theorem registerAgent_postcondition_witness:
  "getAgent (snd (registerAgent ''a9'' ''2026-01-03T00:00:00.000Z'' ''2026-01-03T00:00:00.001Z''
                    (seedProfile seed_PhotonSol) demoRegistry)) ''a9'' =
     Some ((seedProfile seed_PhotonSol)
             \<lparr>agent_id := ''a9'', createdAt := ''2026-01-03T00:00:00.000Z'',
              lastActive := ''2026-01-03T00:00:00.001Z'',
              reputation := 0, tasksCompleted := 0, successRate := 100\<rparr>) \<and>
   getAgent (snd (registerAgent ''a9'' ''2026-01-03T00:00:00.000Z'' ''2026-01-03T00:00:00.001Z''
                    (seedProfile seed_PhotonSol) demoRegistry)) ''a2'' =
     getAgent demoRegistry ''a2'' \<and>
   map_option reputation
     (getAgent (snd (registerExternalAgent ''a9'' ''2026-01-03T00:00:00.000Z''
                       ''2026-01-03T00:00:00.001Z'' (seedProfile seed_PhotonSol) demoRegistry))
        ''a9'') = Some 83 \<and>
   getAgent (snd (registerExternalAgent ''a9'' ''2026-01-03T00:00:00.000Z''
                    ''2026-01-03T00:00:00.001Z'' (seedProfile seed_PhotonSol) demoRegistry))
     ''a2'' = getAgent demoRegistry ''a2''"
proof -
  have ne: "''a2'' \<noteq> ''a9''" by simp
  have rep: "reputation (seedProfile seed_PhotonSol) = 83"
    by (simp add: seedProfile_def seed_PhotonSol_def)
  show ?thesis
    using ne rep
      registerAgent_postcondition [of "''a9''" "''2026-01-03T00:00:00.000Z''"
        "''2026-01-03T00:00:00.001Z''" "seedProfile seed_PhotonSol" demoRegistry]
    by simp
qed

section \<open>Task status updates\<close>

lemma updateReputation_skills: "skills (updateReputation now agentId s r) = skills r"
  by (simp add: updateReputation_def Let_def split: option.split)

lemma updateReputation_tasks: "tasks (updateReputation now agentId s r) = tasks r"
  by (simp add: updateReputation_def Let_def split: option.split)

lemma updateReputation_agents_frame:
  "agents (updateReputation now agentId s (r\<lparr>tasks := ts\<rparr>)) =
   agents (updateReputation now agentId s r)"
  by (simp add: updateReputation_def Let_def split: option.split)

lemma updateReputation_Some:
  "map_of (agents r) agentId = Some a \<Longrightarrow>
   updateReputation now agentId s r =
     r\<lparr>agents := AList.update agentId
          (a\<lparr>tasksCompleted := tasksCompleted a + 1,
             reputation := (if s then min 100 (reputation a + 1) else max 0 (reputation a - 2)),
             successRate := real_of_int (if s then min 100 (reputation a + 1)
                                      else max 0 (reputation a - 2))
                            / real (tasksCompleted a + 1) * 100,
             lastActive := now\<rparr>) (agents r)\<rparr>"
  by (simp add: updateReputation_def Let_def)

lemma updateTaskStatus_terminal_tasks:
  assumes "map_of (tasks r) taskId = Some t" and "st = completed \<or> st = failed"
  shows "tasks (updateTaskStatus now now' taskId st res err r) =
           AList.update taskId
             (t\<lparr>status := st, completedAt := Some now, result := res, error := err\<rparr>) (tasks r)"
  using assms
  by (auto simp add: updateTaskStatus_def Let_def updateReputation_tasks split: option.split)

lemma updateTaskStatus_terminal_agents:
  assumes "map_of (tasks r) taskId = Some t" and "st = completed \<or> st = failed"
  shows "agents (updateTaskStatus now now' taskId st res err r) =
           agents (updateReputation now' (task_agentId t) (st = completed) r)"
  using assms
  by (auto simp add: updateTaskStatus_def Let_def updateReputation_agents_frame
      split: option.split)

lemma updateTaskStatus_terminal_skills:
  assumes "map_of (tasks r) taskId = Some t" and "st = completed \<or> st = failed"
  shows "skills (updateTaskStatus now now' taskId st res err r) =
           (case map_of (skills r) (task_skillId t) of
              None \<Rightarrow> skills r
            | Some sk \<Rightarrow>
                AList.update (task_skillId t) (sk\<lparr>usageCount := usageCount sk + 1\<rparr>) (skills r))"
  using assms
  by (auto simp add: updateTaskStatus_def Let_def updateReputation_skills split: option.split)

lemma updateTaskStatus_other_tasks:
  assumes "map_of (tasks r) taskId = Some t" and "st = pending \<or> st = running"
  shows "tasks (updateTaskStatus now now' taskId st res err r) =
           AList.update taskId
             (if st = running \<and> startedAt t = None
              then t\<lparr>status := st, startedAt := Some now\<rparr> else t\<lparr>status := st\<rparr>) (tasks r)"
  using assms by (auto simp add: updateTaskStatus_def Let_def)

lemma updateTaskStatus_status:
  assumes "map_of (tasks r) taskId = Some t"
  shows "map_option status (map_of (tasks (updateTaskStatus now now' taskId st res err r)) taskId)
           = Some st"
proof (cases "st = completed \<or> st = failed")
  case True
  show ?thesis
    by (simp add: updateTaskStatus_terminal_tasks [OF assms True] update_conv')
next
  case False
  then have "st = pending \<or> st = running" by (cases st) auto
  then show ?thesis
    by (simp add: updateTaskStatus_other_tasks [OF assms] update_conv')
qed

lemma demoCompleted_eval:
  "demoCompleted =
     demoRegistry
       \<lparr>tasks :=
          [(''t1'', \<lparr>task_id = ''t1'', task_agentId = ''a2'', task_skillId = ''s1'',
                    task_description = ''check balance'',
                    task_parameters = [(''query'', JStr ''check balance'')], status = completed,
                    result = JObj [(''description'', JStr ''check balance'')], error = None,
                    payment = None, task_createdAt = ''2026-01-01T00:00:01.000Z'',
                    startedAt = None, completedAt = Some ''2026-01-01T00:00:02.000Z''\<rparr>)],
        agents :=
          agents (updateReputation ''2026-01-01T00:00:02.000Z'' ''a2'' True demoRegistry),
        skills := [(''s1'', balanceChecker\<lparr>skill_id := ''s1'', usageCount := 1, rating := 0\<rparr>)]\<rparr>"
proof -
  have t: "map_of (tasks demoRegistry) ''t1'' =
      Some \<lparr>task_id = ''t1'', task_agentId = ''a2'', task_skillId = ''s1'',
            task_description = ''check balance'',
            task_parameters = [(''query'', JStr ''check balance'')], status = pending,
            result = JUndefined, error = None, payment = None,
            task_createdAt = ''2026-01-01T00:00:01.000Z'', startedAt = None,
            completedAt = None\<rparr>"
    by (simp add: demoRegistry_eval)
  have c: "completed = completed \<or> completed = failed" by simp
  have "tasks demoCompleted = tasks (demoRegistry\<lparr>tasks :=
          [(''t1'', \<lparr>task_id = ''t1'', task_agentId = ''a2'', task_skillId = ''s1'',
                    task_description = ''check balance'',
                    task_parameters = [(''query'', JStr ''check balance'')], status = completed,
                    result = JObj [(''description'', JStr ''check balance'')], error = None,
                    payment = None, task_createdAt = ''2026-01-01T00:00:01.000Z'',
                    startedAt = None, completedAt = Some ''2026-01-01T00:00:02.000Z''\<rparr>)]\<rparr>)"
    unfolding demoCompleted_def updateTaskStatus_terminal_tasks [OF t c]
    by (simp add: demoRegistry_eval)
  moreover have "agents demoCompleted =
      agents (updateReputation ''2026-01-01T00:00:02.000Z'' ''a2'' True demoRegistry)"
    unfolding demoCompleted_def updateTaskStatus_terminal_agents [OF t c] by simp
  moreover have "skills demoCompleted =
      [(''s1'', balanceChecker\<lparr>skill_id := ''s1'', usageCount := 1, rating := 0\<rparr>)]"
    unfolding demoCompleted_def updateTaskStatus_terminal_skills [OF t c]
    by (simp add: demoRegistry_eval)
  ultimately show ?thesis by simp
qed

lemma demoCompleted_a2:
  "\<exists>a. map_of (agents demoCompleted) ''a2'' = Some a \<and> reputation a = 90 \<and>
       tasksCompleted a = 5800001"
proof -
  have "map_of (agents demoRegistry) ''a2'' =
      Some ((seedProfile seed_BonkBot)
              \<lparr>agent_id := ''a2'', createdAt := ''2026-01-01T00:00:00.001Z'',
               lastActive := ''2026-01-01T00:00:00.001Z''\<rparr>)"
    by (simp add: demoRegistry_eval)
  from updateReputation_Some [OF this] show ?thesis
    by (simp add: demoCompleted_eval update_conv' seedProfile_def seed_BonkBot_def)
qed

lemma demoCompleted_t1:
  "map_of (tasks demoCompleted) ''t1'' =
     Some \<lparr>task_id = ''t1'', task_agentId = ''a2'', task_skillId = ''s1'',
           task_description = ''check balance'',
           task_parameters = [(''query'', JStr ''check balance'')], status = completed,
           result = JObj [(''description'', JStr ''check balance'')], error = None,
           payment = None, task_createdAt = ''2026-01-01T00:00:01.000Z'',
           startedAt = None, completedAt = Some ''2026-01-01T00:00:02.000Z''\<rparr>"
  by (simp add: demoCompleted_eval)

lemma demoCompleted_s1:
  "map_of (skills demoCompleted) ''s1'' =
     Some (balanceChecker\<lparr>skill_id := ''s1'', usageCount := 1, rating := 0\<rparr>)"
  by (simp add: demoCompleted_eval)

lemma demoCompletedThenFailed_a2:
  "\<exists>a. map_of (agents demoCompletedThenFailed) ''a2'' = Some a \<and> reputation a = 88 \<and>
       tasksCompleted a = 5800002"
proof -
  obtain a where a: "map_of (agents demoCompleted) ''a2'' = Some a"
    and ra: "reputation a = 90" and ta: "tasksCompleted a = 5800001"
    using demoCompleted_a2 by blast
  have f: "failed = completed \<or> failed = failed" by simp
  have "agents demoCompletedThenFailed =
      agents (updateReputation ''2026-01-01T00:00:03.000Z'' ''a2'' False demoCompleted)"
    unfolding demoCompletedThenFailed_def
      updateTaskStatus_terminal_agents [OF demoCompleted_t1 f] by simp
  then show ?thesis
    using ra ta by (simp add: updateReputation_Some [OF a] update_conv')
qed

lemma demoCompletedThenFailed_s1:
  "map_option usageCount (map_of (skills demoCompletedThenFailed) ''s1'') = Some 2"
proof -
  have f: "failed = completed \<or> failed = failed" by simp
  show ?thesis
    unfolding demoCompletedThenFailed_def
      updateTaskStatus_terminal_skills [OF demoCompleted_t1 f]
    by (simp add: demoCompleted_s1 update_conv')
qed

text \<open>
  C1, as the claim states it, fails: \<open>updateTaskStatus\<close> never looks at the status the
  task has. The task \<open>t1\<close> of agent \<open>a2\<close> (reputation 89, 5800000 tasks) on skill \<open>s1\<close>
  (used 0 times) is completed, which brings the agent to 90 and 5800001 and the skill to
  1. Marking the completed task failed then takes the reputation to 88, counts a second
  task and a second use, and leaves the task failed; marking the completed task pending
  leaves it pending.
\<close>

theorem updateTaskStatus_terminal_not_idempotent:
  "map_option status (getTask demoCompleted ''t1'') = Some completed \<and>
   map_option reputation (getAgent demoCompleted ''a2'') = Some 90 \<and>
   map_option tasksCompleted (getAgent demoCompleted ''a2'') = Some 5800001 \<and>
   map_option usageCount (getSkill demoCompleted ''s1'') = Some 1 \<and>
   map_option status (getTask demoCompletedThenFailed ''t1'') = Some failed \<and>
   map_option reputation (getAgent demoCompletedThenFailed ''a2'') = Some 88 \<and>
   map_option tasksCompleted (getAgent demoCompletedThenFailed ''a2'') = Some 5800002 \<and>
   map_option usageCount (getSkill demoCompletedThenFailed ''s1'') = Some 2 \<and>
   map_option status (getTask demoCompletedThenPending ''t1'') = Some pending"
proof -
  obtain a where "map_of (agents demoCompleted) ''a2'' = Some a"
    and "reputation a = 90" and "tasksCompleted a = 5800001"
    using demoCompleted_a2 by blast
  moreover obtain b where "map_of (agents demoCompletedThenFailed) ''a2'' = Some b"
    and "reputation b = 88" and "tasksCompleted b = 5800002"
    using demoCompletedThenFailed_a2 by blast
  moreover have "map_option status (map_of (tasks demoCompletedThenFailed) ''t1'') = Some failed"
    unfolding demoCompletedThenFailed_def
    by (rule updateTaskStatus_status [OF demoCompleted_t1])
  moreover have "map_option status (map_of (tasks demoCompletedThenPending) ''t1'') = Some pending"
    unfolding demoCompletedThenPending_def
    by (rule updateTaskStatus_status [OF demoCompleted_t1])
  ultimately show ?thesis
    using demoCompletedThenFailed_s1
    by (simp add: getTask_def getAgent_def getSkill_def demoCompleted_t1 demoCompleted_s1)
qed

text \<open>
  C1, amended. On a stored task, whatever status the task has (terminal or not), a call
  of \<open>updateTaskStatus\<close> with \<open>completed\<close> or \<open>failed\<close> stores that status, the
  completion time, the result and the error on the task, applies one \<open>updateReputation\<close>
  to the owning agent (success exactly for \<open>completed\<close>) and adds one to the usage count
  of the target skill if the skill is stored. A call with any status at all leaves the
  task with that status: no status is final.
\<close>

theorem updateTaskStatus_terminal_effects:
  assumes "getTask r taskId = Some t" and "st = completed \<or> st = failed"
  shows "getTask (updateTaskStatus now now' taskId st res err r) taskId =
           Some (t\<lparr>status := st, completedAt := Some now, result := res, error := err\<rparr>) \<and>
         agents (updateTaskStatus now now' taskId st res err r) =
           agents (updateReputation now' (task_agentId t) (st = completed) r) \<and>
         (\<forall>sk. getSkill r (task_skillId t) = Some sk \<longrightarrow>
            getSkill (updateTaskStatus now now' taskId st res err r) (task_skillId t) =
              Some (sk\<lparr>usageCount := usageCount sk + 1\<rparr>)) \<and>
         (\<forall>st'. map_option status (getTask (updateTaskStatus now now' taskId st' res err r) taskId)
            = Some st')"
proof -
  have t: "map_of (tasks r) taskId = Some t"
    using assms(1) by (simp add: getTask_def)
  show ?thesis
    unfolding getTask_def getSkill_def
    using updateTaskStatus_terminal_tasks [OF t assms(2)]
      updateTaskStatus_terminal_agents [OF t assms(2)]
      updateTaskStatus_terminal_skills [OF t assms(2)]
      updateTaskStatus_status [OF t]
    by (simp add: update_conv')
qed

theorem updateTaskStatus_terminal_effects_witness:
  "status \<lparr>task_id = ''t1'', task_agentId = ''a2'', task_skillId = ''s1'',
           task_description = ''check balance'',
           task_parameters = [(''query'', JStr ''check balance'')], status = completed,
           result = JObj [(''description'', JStr ''check balance'')], error = None,
           payment = None, task_createdAt = ''2026-01-01T00:00:01.000Z'',
           startedAt = None, completedAt = Some ''2026-01-01T00:00:02.000Z''\<rparr> = completed \<and>
   getTask demoCompletedThenFailed ''t1'' =
     Some \<lparr>task_id = ''t1'', task_agentId = ''a2'', task_skillId = ''s1'',
           task_description = ''check balance'',
           task_parameters = [(''query'', JStr ''check balance'')], status = failed,
           result = JUndefined, error = Some ''Command failed'',
           payment = None, task_createdAt = ''2026-01-01T00:00:01.000Z'',
           startedAt = None, completedAt = Some ''2026-01-01T00:00:03.000Z''\<rparr> \<and>
   agents demoCompletedThenFailed =
     agents (updateReputation ''2026-01-01T00:00:03.000Z'' ''a2'' False demoCompleted) \<and>
   getSkill demoCompletedThenFailed ''s1'' =
     Some (balanceChecker\<lparr>skill_id := ''s1'', usageCount := 2, rating := 0\<rparr>)"
proof -
  have t: "getTask demoCompleted ''t1'' =
     Some \<lparr>task_id = ''t1'', task_agentId = ''a2'', task_skillId = ''s1'',
           task_description = ''check balance'',
           task_parameters = [(''query'', JStr ''check balance'')], status = completed,
           result = JObj [(''description'', JStr ''check balance'')], error = None,
           payment = None, task_createdAt = ''2026-01-01T00:00:01.000Z'',
           startedAt = None, completedAt = Some ''2026-01-01T00:00:02.000Z''\<rparr>"
    by (simp add: getTask_def demoCompleted_t1)
  have f: "failed = completed \<or> failed = failed" by simp
  have s: "getSkill demoCompleted ''s1'' =
      Some (balanceChecker\<lparr>skill_id := ''s1'', usageCount := 1, rating := 0\<rparr>)"
    by (simp add: getSkill_def demoCompleted_s1)
  show ?thesis
    using s updateTaskStatus_terminal_effects [OF t f, of "''2026-01-01T00:00:03.000Z''"
        "''2026-01-01T00:00:03.000Z''" JUndefined "Some ''Command failed''"]
    by (simp add: demoCompletedThenFailed_def)
qed

section \<open>Skill execution\<close>

lemma executeSkill_rejected_state:
  "executeSkill hs skillId ps r = (Inl e, r') \<Longrightarrow> r' = r"
  by (auto simp: executeSkill_def split: option.splits sum.splits)

lemma executeSkill_resolved:
  assumes "executeSkill hs skillId ps r = (Inr res, r')"
  shows "\<exists>sk h. getSkill r skillId = Some sk \<and> map_of hs skillId = Some h \<and>
           h ps = Inr res \<and>
           getSkill r' skillId = Some (sk\<lparr>usageCount := usageCount sk + 1\<rparr>)"
  using assms
  by (auto simp: executeSkill_def getSkill_def update_conv' split: option.splits sum.splits)

lemma executeSkill_missing_parameter:
  assumes "getSkill r skillId = Some sk" and "map_of hs skillId = Some h"
    and "\<not> list_all (\<lambda>p. \<not> required p \<or> js_in (param_name p) ps) (parameters sk)"
  shows "\<exists>n. executeSkill hs skillId ps r = (Inl (MissingRequiredParameter n), r)"
proof -
  have "find (\<lambda>param. required param \<and> \<not> js_in (param_name param) ps) (parameters sk) \<noteq> None"
    using assms(3) by (auto simp: find_None_iff list_all_iff)
  then show ?thesis
    using assms(1,2) by (auto simp: executeSkill_def)
qed

lemma executeSkill_handler_threw:
  assumes "getSkill r skillId = Some sk" and "map_of hs skillId = Some h"
    and "list_all (\<lambda>p. \<not> required p \<or> js_in (param_name p) ps) (parameters sk)"
    and "h ps = Inl msg"
  shows "executeSkill hs skillId ps r = (Inl (HandlerThrew msg), r)"
proof -
  have "find (\<lambda>param. required param \<and> \<not> js_in (param_name param) ps) (parameters sk) = None"
    using assms(3) by (auto simp: find_None_iff list_all_iff)
  then show ?thesis
    using assms(1,2,4) by (simp add: executeSkill_def)
qed

text \<open>
  C10. Whenever \<open>executeSkill\<close> rejects, the registry is as it was before the call, so
  no usage count has moved. It rejects, with the error of the case, when the skill is not
  stored, when no handler is stored for it, when a required parameter is not \<open>in\<close> the
  parameter bag, and when all required parameters are there and the handler throws.
  Whenever it resolves, the handler has resolved with the returned payload and the usage
  count of the skill is one higher than before.
\<close>

theorem executeSkill_failure_keeps_usageCount:
  "(\<forall>e r'. executeSkill hs skillId ps r = (Inl e, r') \<longrightarrow>
      r' = r \<and> getSkill r' skillId = getSkill r skillId) \<and>
   (getSkill r skillId = None \<longrightarrow>
      executeSkill hs skillId ps r = (Inl (SkillNotFound skillId), r)) \<and>
   (\<forall>sk. getSkill r skillId = Some sk \<and> map_of hs skillId = None \<longrightarrow>
      executeSkill hs skillId ps r = (Inl (HandlerNotFound (skill_name sk)), r)) \<and>
   (\<forall>sk h. getSkill r skillId = Some sk \<and> map_of hs skillId = Some h \<and>
      \<not> list_all (\<lambda>p. \<not> required p \<or> js_in (param_name p) ps) (parameters sk) \<longrightarrow>
      (\<exists>n. executeSkill hs skillId ps r = (Inl (MissingRequiredParameter n), r))) \<and>
   (\<forall>sk h msg. getSkill r skillId = Some sk \<and> map_of hs skillId = Some h \<and>
      list_all (\<lambda>p. \<not> required p \<or> js_in (param_name p) ps) (parameters sk) \<and>
      h ps = Inl msg \<longrightarrow>
      executeSkill hs skillId ps r = (Inl (HandlerThrew msg), r)) \<and>
   (\<forall>res r'. executeSkill hs skillId ps r = (Inr res, r') \<longrightarrow>
      (\<exists>sk h. getSkill r skillId = Some sk \<and> map_of hs skillId = Some h \<and>
         h ps = Inr res \<and>
         getSkill r' skillId = Some (sk\<lparr>usageCount := usageCount sk + 1\<rparr>)))"
proof (intro conjI allI impI)
  fix e r' assume "executeSkill hs skillId ps r = (Inl e, r')"
  then show "r' = r" by (rule executeSkill_rejected_state)
next
  fix e r' assume "executeSkill hs skillId ps r = (Inl e, r')"
  then have "r' = r" by (rule executeSkill_rejected_state)
  then show "getSkill r' skillId = getSkill r skillId" by simp
next
  assume "getSkill r skillId = None"
  then show "executeSkill hs skillId ps r = (Inl (SkillNotFound skillId), r)"
    by (simp add: executeSkill_def)
next
  fix sk assume "getSkill r skillId = Some sk \<and> map_of hs skillId = None"
  then show "executeSkill hs skillId ps r = (Inl (HandlerNotFound (skill_name sk)), r)"
    by (simp add: executeSkill_def)
next
  fix sk h
  assume "getSkill r skillId = Some sk \<and> map_of hs skillId = Some h \<and>
      \<not> list_all (\<lambda>p. \<not> required p \<or> js_in (param_name p) ps) (parameters sk)"
  then show "\<exists>n. executeSkill hs skillId ps r = (Inl (MissingRequiredParameter n), r)"
    using executeSkill_missing_parameter by blast
next
  fix sk h msg
  assume "getSkill r skillId = Some sk \<and> map_of hs skillId = Some h \<and>
      list_all (\<lambda>p. \<not> required p \<or> js_in (param_name p) ps) (parameters sk) \<and>
      h ps = Inl msg"
  then show "executeSkill hs skillId ps r = (Inl (HandlerThrew msg), r)"
    using executeSkill_handler_threw by blast
next
  fix res r' assume "executeSkill hs skillId ps r = (Inr res, r')"
  then show "\<exists>sk h. getSkill r skillId = Some sk \<and> map_of hs skillId = Some h \<and>
         h ps = Inr res \<and>
         getSkill r' skillId = Some (sk\<lparr>usageCount := usageCount sk + 1\<rparr>)"
    by (rule executeSkill_resolved)
qed

lemma getSkill_demoRegistry_s1:
  "getSkill demoRegistry ''s1'' =
     Some (balanceChecker\<lparr>skill_id := ''s1'', usageCount := 0, rating := 0\<rparr>)"
  by (simp add: getSkill_def demoRegistry_eval)

lemma executeSkill_demo_missing:
  "fst (executeSkill demoHandlers ''s1'' [] demoRegistry) =
     Inl (MissingRequiredParameter ''address'')"
  by (simp add: executeSkill_def getSkill_demoRegistry_s1 demoHandlers_def balanceChecker_def
      js_in_def objectPrototypeProps_def)

lemma executeSkill_demo_threw:
  "fst (executeSkill demoHandlers ''s1'' [(''address'', JStr [])] demoRegistry) =
     Inl (HandlerThrew ''Invalid public key input'')"
  by (simp add: executeSkill_def getSkill_demoRegistry_s1 demoHandlers_def balanceChecker_def
      js_in_def objectPrototypeProps_def)

lemma executeSkill_demo_resolved:
  "fst (executeSkill demoHandlers ''s1''
          [(''address'', JStr ''DezXAZ8z7PnrnRJjz3wXBoRgixCa6xjnB7YaB1pPB263'')] demoRegistry) =
     Inr (JStr ''Balance: 1 SOL'')"
  by (simp add: executeSkill_def getSkill_demoRegistry_s1 demoHandlers_def balanceChecker_def
      js_in_def objectPrototypeProps_def)

theorem executeSkill_failure_keeps_usageCount_witness:
  "executeSkill demoHandlers ''zz'' [] demoRegistry = (Inl (SkillNotFound ''zz''), demoRegistry) \<and>
   executeSkill [] ''s1'' [] demoRegistry = (Inl (HandlerNotFound ''Balance Checker''), demoRegistry) \<and>
   executeSkill demoHandlers ''s1'' [] demoRegistry =
     (Inl (MissingRequiredParameter ''address''), demoRegistry) \<and>
   executeSkill demoHandlers ''s1'' [(''address'', JStr [])] demoRegistry =
     (Inl (HandlerThrew ''Invalid public key input''), demoRegistry) \<and>
   getSkill (snd (executeSkill demoHandlers ''s1''
                    [(''address'', JStr ''DezXAZ8z7PnrnRJjz3wXBoRgixCa6xjnB7YaB1pPB263'')]
                    demoRegistry)) ''s1'' =
     Some (balanceChecker\<lparr>skill_id := ''s1'', usageCount := 1, rating := 0\<rparr>)"
proof -
  have none: "getSkill demoRegistry ''zz'' = None"
    by (simp add: getSkill_def demoRegistry_eval)
  have nohandler: "getSkill demoRegistry ''s1'' =
        Some (balanceChecker\<lparr>skill_id := ''s1'', usageCount := 0, rating := 0\<rparr>) \<and>
      map_of ([] :: skill_handler jsmap) ''s1'' = None"
    by (simp add: getSkill_demoRegistry_s1)
  have name: "skill_name (balanceChecker\<lparr>skill_id := ''s1'', usageCount := 0, rating := 0\<rparr>) =
      ''Balance Checker''"
    by (simp add: balanceChecker_def)
  have missing: "executeSkill demoHandlers ''s1'' [] demoRegistry =
        (Inl (MissingRequiredParameter ''address''),
         snd (executeSkill demoHandlers ''s1'' [] demoRegistry))"
    using executeSkill_demo_missing by (simp add: prod_eq_iff)
  have threw: "executeSkill demoHandlers ''s1'' [(''address'', JStr [])] demoRegistry =
        (Inl (HandlerThrew ''Invalid public key input''),
         snd (executeSkill demoHandlers ''s1'' [(''address'', JStr [])] demoRegistry))"
    using executeSkill_demo_threw by (simp add: prod_eq_iff)
  have res: "executeSkill demoHandlers ''s1''
          [(''address'', JStr ''DezXAZ8z7PnrnRJjz3wXBoRgixCa6xjnB7YaB1pPB263'')] demoRegistry =
        (Inr (JStr ''Balance: 1 SOL''),
         snd (executeSkill demoHandlers ''s1''
          [(''address'', JStr ''DezXAZ8z7PnrnRJjz3wXBoRgixCa6xjnB7YaB1pPB263'')] demoRegistry))"
    using executeSkill_demo_resolved by (simp add: prod_eq_iff)
  note notfound = executeSkill_failure_keeps_usageCount
    [of demoHandlers "''zz''" "[]" demoRegistry, THEN conjunct2, THEN conjunct1, rule_format]
  note nohandl = executeSkill_failure_keeps_usageCount
    [of "[]" "''s1''" "[]" demoRegistry, THEN conjunct2, THEN conjunct2, THEN conjunct1,
     rule_format]
  note rejected1 = executeSkill_failure_keeps_usageCount
    [of demoHandlers "''s1''" "[]" demoRegistry, THEN conjunct1, rule_format, OF missing,
     THEN conjunct1]
  note rejected2 = executeSkill_failure_keeps_usageCount
    [of demoHandlers "''s1''" "[(''address'', JStr [])]" demoRegistry, THEN conjunct1,
     rule_format, OF threw, THEN conjunct1]
  note resolved = executeSkill_failure_keeps_usageCount
    [of demoHandlers "''s1''"
      "[(''address'', JStr ''DezXAZ8z7PnrnRJjz3wXBoRgixCa6xjnB7YaB1pPB263'')]" demoRegistry,
     THEN conjunct2, THEN conjunct2, THEN conjunct2, THEN conjunct2, THEN conjunct2,
     rule_format, OF res]
  have a: "executeSkill demoHandlers ''zz'' [] demoRegistry =
      (Inl (SkillNotFound ''zz''), demoRegistry)"
    by (rule notfound [OF none])
  have b: "executeSkill [] ''s1'' [] demoRegistry =
      (Inl (HandlerNotFound ''Balance Checker''), demoRegistry)"
    using nohandl [OF nohandler] name by simp
  have c: "executeSkill demoHandlers ''s1'' [] demoRegistry =
     (Inl (MissingRequiredParameter ''address''), demoRegistry)"
    using missing rejected1 by simp
  have d: "executeSkill demoHandlers ''s1'' [(''address'', JStr [])] demoRegistry =
     (Inl (HandlerThrew ''Invalid public key input''), demoRegistry)"
    using threw rejected2 by simp
  obtain sk where sk: "getSkill demoRegistry ''s1'' = Some sk"
    and sk': "getSkill (snd (executeSkill demoHandlers ''s1''
          [(''address'', JStr ''DezXAZ8z7PnrnRJjz3wXBoRgixCa6xjnB7YaB1pPB263'')] demoRegistry))
        ''s1'' = Some (sk\<lparr>usageCount := usageCount sk + 1\<rparr>)"
    using resolved by blast
  have e: "getSkill (snd (executeSkill demoHandlers ''s1''
          [(''address'', JStr ''DezXAZ8z7PnrnRJjz3wXBoRgixCa6xjnB7YaB1pPB263'')] demoRegistry))
        ''s1'' = Some (balanceChecker\<lparr>skill_id := ''s1'', usageCount := 1, rating := 0\<rparr>)"
    using sk sk' by (auto simp: getSkill_demoRegistry_s1)
  show ?thesis
    using a b c d e by simp
qed

section \<open>The crawl cycle\<close>

lemma fetchAgentTokenData_inherited:
  "fetchAgentTokenData w ''constructor'' =
     fetchTokenData w ''function Object() { [native code] }'' \<and>
   fetchAgentTokenData w ''toString'' =
     fetchTokenData w ''function toString() { [native code] }''"
  by (simp add: fetchAgentTokenData_def lookupTokenMint_def AGENT_TOKEN_MAP_def
      objectPrototypeProps_def inheritedMintText_def)






















section \<open>Export and import\<close>











lemma map_of_anyProp:
  "map_of (anyProp k' v) k = (if k = k' \<and> v \<noteq> JUndefined then Some v else None)"
  by (simp add: anyProp_def)



























lemma importData_syntax_error: "importData None r = (r, FailedToImport SyntaxError)"
  by (simp add: importData_def importTry_def)

lemma importData_agents_unloadable:
  "loadMap parsed ''agents'' = None \<Longrightarrow> importData (Some parsed) r = (r, FailedToImport TypeError)"
  by (simp add: importData_def importTry_def)

lemma importData_skills_unloadable:
  "loadMap parsed ''agents'' = Some am \<Longrightarrow> loadMap parsed ''skills'' = None \<Longrightarrow>
   importData (Some parsed) r = (r\<lparr>raw_agents := am\<rparr>, FailedToImport TypeError)"
  by (simp add: importData_def importTry_def)

lemma importData_tasks_unloadable:
  "loadMap parsed ''agents'' = Some am \<Longrightarrow> loadMap parsed ''skills'' = Some sm \<Longrightarrow>
   loadMap parsed ''tasks'' = None \<Longrightarrow>
   importData (Some parsed) r =
     (r\<lparr>raw_agents := am, raw_skills := sm\<rparr>, FailedToImport TypeError)"
  by (simp add: importData_def importTry_def)

lemma importData_failed_tasks:
  "importData data r = (r', FailedToImport e) \<Longrightarrow> raw_tasks r' = raw_tasks r"
  by (auto simp: importData_def importTry_def Let_def split: option.splits)

lemma importData_failed_cases:
  "importData data r = (r', FailedToImport e) \<Longrightarrow>
     data = None \<and> e = SyntaxError \<and> r' = r \<or>
     (\<exists>parsed. data = Some parsed \<and> e = TypeError \<and>
        (loadMap parsed ''agents'' = None \<and> r' = r \<or>
         (\<exists>am. loadMap parsed ''agents'' = Some am \<and>
            (loadMap parsed ''skills'' = None \<and> r' = r\<lparr>raw_agents := am\<rparr> \<or>
             (\<exists>sm. loadMap parsed ''skills'' = Some sm \<and> loadMap parsed ''tasks'' = None \<and>
                r' = r\<lparr>raw_agents := am, raw_skills := sm\<rparr>)))))"
  by (auto simp: importData_def importTry_def Let_def split: option.splits)

text \<open>
  C5, amended. \<open>importData\<close> always returns: every failure is caught and logged. When
  the text is not valid JSON, and when it is but \<open>new Map(parsed.agents)\<close> throws (the
  parsed value is \<open>null\<close>, or its \<open>agents\<close> field cannot be loaded), all three maps
  are as they were. When the \<open>agents\<close> field loads and the \<open>skills\<close> field does not,
  the agent map is the loaded one and the other two maps are as they were. When the
  \<open>agents\<close> and the \<open>skills\<close> field load and the \<open>tasks\<close> field does not, the agent
  and the skill map are the loaded ones and the task map is as it was. On every failure
  the task map is as it was, and a failure that leaves the registry changed is one of
  these two late failures.
\<close>

theorem importData_failure:
  "(data = None \<longrightarrow> importData data r = (r, FailedToImport SyntaxError)) \<and>
   (\<forall>parsed. data = Some parsed \<and> loadMap parsed ''agents'' = None \<longrightarrow>
      importData data r = (r, FailedToImport TypeError)) \<and>
   (\<forall>parsed am. data = Some parsed \<and> loadMap parsed ''agents'' = Some am \<and>
      loadMap parsed ''skills'' = None \<longrightarrow>
      importData data r = (r\<lparr>raw_agents := am\<rparr>, FailedToImport TypeError)) \<and>
   (\<forall>parsed am sm. data = Some parsed \<and> loadMap parsed ''agents'' = Some am \<and>
      loadMap parsed ''skills'' = Some sm \<and> loadMap parsed ''tasks'' = None \<longrightarrow>
      importData data r = (r\<lparr>raw_agents := am, raw_skills := sm\<rparr>, FailedToImport TypeError)) \<and>
   (\<forall>r' e. importData data r = (r', FailedToImport e) \<longrightarrow> raw_tasks r' = raw_tasks r) \<and>
   (\<forall>r' e. importData data r = (r', FailedToImport e) \<and> r' \<noteq> r \<longrightarrow>
      (\<exists>parsed am. data = Some parsed \<and> loadMap parsed ''agents'' = Some am \<and>
         raw_agents r' = am \<and>
         (loadMap parsed ''skills'' = None \<or> loadMap parsed ''tasks'' = None)))"
proof (intro conjI allI impI)
  assume "data = None"
  then show "importData data r = (r, FailedToImport SyntaxError)"
    by (simp add: importData_syntax_error)
next
  fix parsed assume "data = Some parsed \<and> loadMap parsed ''agents'' = None"
  then show "importData data r = (r, FailedToImport TypeError)"
    by (simp add: importData_agents_unloadable)
next
  fix parsed am
  assume "data = Some parsed \<and> loadMap parsed ''agents'' = Some am \<and>
      loadMap parsed ''skills'' = None"
  then show "importData data r = (r\<lparr>raw_agents := am\<rparr>, FailedToImport TypeError)"
    by (simp add: importData_skills_unloadable)
next
  fix parsed am sm
  assume "data = Some parsed \<and> loadMap parsed ''agents'' = Some am \<and>
      loadMap parsed ''skills'' = Some sm \<and> loadMap parsed ''tasks'' = None"
  then show "importData data r =
      (r\<lparr>raw_agents := am, raw_skills := sm\<rparr>, FailedToImport TypeError)"
    by (simp add: importData_tasks_unloadable)
next
  fix r' e assume "importData data r = (r', FailedToImport e)"
  then show "raw_tasks r' = raw_tasks r" by (rule importData_failed_tasks)
next
  fix r' e assume a: "importData data r = (r', FailedToImport e) \<and> r' \<noteq> r"
  then show "\<exists>parsed am. data = Some parsed \<and> loadMap parsed ''agents'' = Some am \<and>
         raw_agents r' = am \<and>
         (loadMap parsed ''skills'' = None \<or> loadMap parsed ''tasks'' = None)"
    using importData_failed_cases [of data r r' e] by auto
qed



lemma demoRegistry_raw_agents_nonempty: "raw_agents (toRaw demoRegistry) \<noteq> []"
  by (simp add: toRaw_def encMap_def demoRegistry_eval)

text \<open>
  C5, as the claim states it, fails. The text \<^verbatim>\<open>{"agents":[],"skills":5}\<close> is valid
  JSON whose \<open>skills\<close> field cannot be loaded (\<open>new Map(5)\<close> throws a \<open>TypeError\<close>).
  The import fails and is caught, and by then the agent map has been replaced by the
  empty map: the three agents of the registry are gone.
\<close>

theorem importData_partial_on_failure:
  "importData (Some (JObj [(''agents'', JArr []), (''skills'', JNum 5)])) (toRaw demoRegistry) =
     ((toRaw demoRegistry)\<lparr>raw_agents := []\<rparr>, FailedToImport TypeError) \<and>
   raw_agents (toRaw demoRegistry) \<noteq> [] \<and>
   (toRaw demoRegistry)\<lparr>raw_agents := []\<rparr> \<noteq> toRaw demoRegistry"
proof -
  have "importData (Some (JObj [(''agents'', JArr []), (''skills'', JNum 5)])) (toRaw demoRegistry) =
     ((toRaw demoRegistry)\<lparr>raw_agents := []\<rparr>, FailedToImport TypeError)"
    by (simp add: importData_def importTry_def loadMap_def)
  moreover have "(toRaw demoRegistry)\<lparr>raw_agents := []\<rparr> \<noteq> toRaw demoRegistry"
  proof
    assume "(toRaw demoRegistry)\<lparr>raw_agents := []\<rparr> = toRaw demoRegistry"
    then have "raw_agents ((toRaw demoRegistry)\<lparr>raw_agents := []\<rparr>) = raw_agents (toRaw demoRegistry)"
      by simp
    then show False using demoRegistry_raw_agents_nonempty by simp
  qed
  ultimately show ?thesis using demoRegistry_raw_agents_nonempty by simp
qed

theorem importData_failure_witness:
  "importData None (toRaw demoRegistry) = (toRaw demoRegistry, FailedToImport SyntaxError) \<and>
   importData (Some JNull) (toRaw demoRegistry) = (toRaw demoRegistry, FailedToImport TypeError) \<and>
   importData (Some (JObj [(''agents'', JNum 5)])) (toRaw demoRegistry) =
     (toRaw demoRegistry, FailedToImport TypeError) \<and>
   importData (Some (JObj [(''agents'', JArr []), (''skills'', JNum 5)])) (toRaw demoRegistry) =
     ((toRaw demoRegistry)\<lparr>raw_agents := []\<rparr>, FailedToImport TypeError) \<and>
   importData (Some (JObj [(''agents'', JArr []), (''skills'', JArr []), (''tasks'', JBool True)]))
       (toRaw demoRegistry) =
     ((toRaw demoRegistry)\<lparr>raw_agents := [], raw_skills := []\<rparr>, FailedToImport TypeError) \<and>
   raw_tasks (fst (importData (Some (JObj [(''agents'', JArr []), (''skills'', JNum 5)]))
                     (toRaw demoRegistry))) = raw_tasks (toRaw demoRegistry)"
proof -
  let ?s = "JObj [(''agents'', JArr []), (''skills'', JNum 5)]"
  let ?t = "JObj [(''agents'', JArr []), (''skills'', JArr []), (''tasks'', JBool True)]"
  have n: "Some JNull = Some JNull \<and> loadMap JNull ''agents'' = None"
    by (simp add: loadMap_def)
  have m: "Some (JObj [(''agents'', JNum 5)]) = Some (JObj [(''agents'', JNum 5)]) \<and>
      loadMap (JObj [(''agents'', JNum 5)]) ''agents'' = None"
    by (simp add: loadMap_def)
  have s: "Some ?s = Some ?s \<and> loadMap ?s ''agents'' = Some [] \<and> loadMap ?s ''skills'' = None"
    by (simp add: loadMap_def)
  have t: "Some ?t = Some ?t \<and> loadMap ?t ''agents'' = Some [] \<and>
      loadMap ?t ''skills'' = Some [] \<and> loadMap ?t ''tasks'' = None"
    by (simp add: loadMap_def)
  have a: "importData None (toRaw demoRegistry) = (toRaw demoRegistry, FailedToImport SyntaxError)"
    by (rule importData_failure [of None "toRaw demoRegistry", THEN conjunct1, rule_format])
      simp
  have b: "importData (Some JNull) (toRaw demoRegistry) =
      (toRaw demoRegistry, FailedToImport TypeError)"
    by (rule importData_failure [of "Some JNull" "toRaw demoRegistry", THEN conjunct2,
          THEN conjunct1, rule_format, OF n])
  have c: "importData (Some (JObj [(''agents'', JNum 5)])) (toRaw demoRegistry) =
      (toRaw demoRegistry, FailedToImport TypeError)"
    by (rule importData_failure [of "Some (JObj [(''agents'', JNum 5)])" "toRaw demoRegistry",
          THEN conjunct2, THEN conjunct1, rule_format, OF m])
  have d: "importData (Some ?s) (toRaw demoRegistry) =
      ((toRaw demoRegistry)\<lparr>raw_agents := []\<rparr>, FailedToImport TypeError)"
    by (rule importData_failure [of "Some ?s" "toRaw demoRegistry", THEN conjunct2,
          THEN conjunct2, THEN conjunct1, rule_format, OF s])
  have e: "importData (Some ?t) (toRaw demoRegistry) =
      ((toRaw demoRegistry)\<lparr>raw_agents := [], raw_skills := []\<rparr>, FailedToImport TypeError)"
    by (rule importData_failure [of "Some ?t" "toRaw demoRegistry", THEN conjunct2,
          THEN conjunct2, THEN conjunct2, THEN conjunct1, rule_format, OF t])
  have f: "raw_tasks (fst (importData (Some ?s) (toRaw demoRegistry))) =
      raw_tasks (toRaw demoRegistry)"
    by (rule importData_failure [of "Some ?s" "toRaw demoRegistry", THEN conjunct2,
          THEN conjunct2, THEN conjunct2, THEN conjunct2, THEN conjunct1, rule_format])
      (simp add: d)
  show ?thesis using a b c d e f by simp
qed




end
